theory Spec2Isabelle
  imports Main "HOL-Library.Word"
begin

section \<open>MapEvents.js: the event catalog and the download-error payload\<close>

text \<open>
  The whole module under verification (\<^verbatim>\<open>src/js/src/MapEvents.js\<close>):
  \<^verbatim>\<open>
  export const mapEventTypes = {
      MAP_DOWNLOAD_ERROR: 'MAP_DOWNLOAD_ERROR'
  }

  export class MapEvents {
      static downloadError(errorMessage) {
          return { errorMessage }
      }
  }
  \<close>
  Both declarations build objects, and several properties of interest are about object
  identity, so objects live in an explicit heap and a value that is an object is a
  reference into it.
\<close>

subsection \<open>Values, objects and the heap\<close>

type_synonym addr = nat

text \<open>
  A JavaScript value. A number is carried as the 64 bits of its IEEE-754 encoding: the
  module never computes with one, it only passes it on. Functions and arrays are objects,
  hence references.
\<close>

datatype jsval =
    JUndefined
  | JNull
  | JBoolean bool
  | JNumber "64 word"
  | JBigInt int
  | JString string
  | JSymbol nat
  | JObject addr

text \<open>
  An object is the list of its own properties, in creation order. The heap is the list of
  all objects created so far; the address of an object is its position. Nothing in the
  module deletes or overwrites, so under its own operations the heap only grows.
\<close>

type_synonym props = "(string \<times> jsval) list"
type_synonym heap = "props list"

definition heap_lookup :: "heap \<Rightarrow> addr \<Rightarrow> props option" where
  "heap_lookup h a = (if a < length h then Some (h ! a) else None)"

text \<open>Creating an object: the next unused address, and the heap with the object added.\<close>

definition alloc :: "props \<Rightarrow> heap \<Rightarrow> addr \<times> heap" where
  "alloc ps h = (length h, h @ [ps])"

text \<open>
  Reading the data property \<open>k\<close> of the object at \<open>a\<close>: the value stored, or
  \<open>undefined\<close> for a key the object does not have. The heap is returned as it was found.
  \<open>None\<close> stands for an address at which no object lives.
\<close>

definition get_property :: "addr \<Rightarrow> string \<Rightarrow> heap \<Rightarrow> jsval option \<times> heap" where
  "get_property a k h =
     (case heap_lookup h a of
        None \<Rightarrow> (None, h)
      | Some ps \<Rightarrow> (case map_of ps k of
                     None \<Rightarrow> (Some JUndefined, h)
                   | Some v \<Rightarrow> (Some v, h)))"

text \<open>
  Assigning to the property \<open>k\<close> of the object at \<open>a\<close>, as code that imports the module
  can do (\<^verbatim>\<open>mapEventTypes.MAP_DOWNLOAD_ERROR = ...\<close>). The module calls
  \<^verbatim>\<open>Object.freeze\<close> nowhere, so each of its objects is an ordinary one with writable
  properties: an existing property takes the new value in place, a new key is added at
  the end. \<open>None\<close> stands for an address at which no object lives.
\<close>

fun put_prop :: "string \<Rightarrow> jsval \<Rightarrow> props \<Rightarrow> props" where
  "put_prop k v [] = [(k, v)]"
| "put_prop k v ((k', v') # ps) =
     (if k' = k then (k, v) # ps else (k', v') # put_prop k v ps)"

definition set_property :: "addr \<Rightarrow> string \<Rightarrow> jsval \<Rightarrow> heap \<Rightarrow> heap option" where
  "set_property a k v h =
     (case heap_lookup h a of
        None \<Rightarrow> None
      | Some ps \<Rightarrow> Some (h[a := put_prop k v ps]))"

subsection \<open>Errors, parameters and identifiers\<close>

datatype error = ReferenceError string | TypeError string

text \<open>
  A call binds each formal parameter to the argument at its position; a parameter with no
  argument is bound to \<open>undefined\<close>, and surplus arguments are dropped.
\<close>

fun bind_params :: "string list \<Rightarrow> jsval list \<Rightarrow> (string \<times> jsval) list" where
  "bind_params [] args = []"
| "bind_params (p # ps) [] = (p, JUndefined) # bind_params ps []"
| "bind_params (p # ps) (a # args) = (p, a) # bind_params ps args"

text \<open>Evaluating an identifier: its binding, or a \<open>ReferenceError\<close> when there is none.\<close>

definition lookup_var :: "(string \<times> jsval) list \<Rightarrow> string \<Rightarrow> error + jsval" where
  "lookup_var env x = (case map_of env x of None \<Rightarrow> Inl (ReferenceError x) | Some v \<Rightarrow> Inr v)"

subsection \<open>The module\<close>

text \<open>
  \<^verbatim>\<open>export const mapEventTypes = { MAP_DOWNLOAD_ERROR: 'MAP_DOWNLOAD_ERROR' }\<close>

  Loading the module evaluates the object literal once and binds the constant to the
  object created. The binding is \<^verbatim>\<open>const\<close>: it is a field of the module's environment
  that no operation returns changed.
\<close>

record module_env =
  mapEventTypes :: addr

definition module_init :: "heap \<Rightarrow> module_env \<times> heap" where
  "module_init h =
     (let (a, h') = alloc [(''MAP_DOWNLOAD_ERROR'', JString ''MAP_DOWNLOAD_ERROR'')] h
      in (\<lparr>mapEventTypes = a\<rparr>, h'))"

text \<open>
  \<^verbatim>\<open>static downloadError(errorMessage) { return { errorMessage } }\<close>

  The class \<^verbatim>\<open>MapEvents\<close> is a namespace for its one static method, which is modelled
  as a function of the argument list and the heap. The shorthand literal
  \<^verbatim>\<open>{ errorMessage }\<close> evaluates the identifier \<^verbatim>\<open>errorMessage\<close> and creates an object
  whose one property, of that name, holds the value.
\<close>

definition downloadError :: "jsval list \<Rightarrow> heap \<Rightarrow> error + (jsval \<times> heap)" where
  "downloadError args h =
     (case lookup_var (bind_params [''errorMessage''] args) ''errorMessage'' of
        Inl e \<Rightarrow> Inl e
      | Inr v \<Rightarrow> (let (a, h') = alloc [(''errorMessage'', v)] h in Inr (JObject a, h')))"

subsection \<open>Observing results\<close>

text \<open>The own properties of the object a call returned, read in the heap it returned.\<close>

definition result_payload :: "error + (jsval \<times> heap) \<Rightarrow> props option" where
  "result_payload r =
     (case r of
        Inr (JObject a, h') \<Rightarrow> heap_lookup h' a
      | _ \<Rightarrow> None)"

text \<open>
  A caller making one call after another, each on the heap the previous one left; an
  error ends the sequence, as an exception would.
\<close>

fun downloadError_calls :: "jsval list list \<Rightarrow> heap \<Rightarrow> error + (jsval list \<times> heap)" where
  "downloadError_calls [] h = Inr ([], h)"
| "downloadError_calls (args # rest) h =
     (case downloadError args h of
        Inl e \<Rightarrow> Inl e
      | Inr (r, h1) \<Rightarrow>
          (case downloadError_calls rest h1 of
             Inl e \<Rightarrow> Inl e
           | Inr (rs, h2) \<Rightarrow> Inr (r # rs, h2)))"

section \<open>Properties\<close>

subsection \<open>Shared facts\<close>

lemma heap_lookup_new: "heap_lookup (h @ [ps]) (length h) = Some ps"
  by (simp add: heap_lookup_def)

lemma downloadError_one_arg:
  "downloadError (v # rest) h = Inr (JObject (length h), h @ [[(''errorMessage'', v)]])"
  by (simp add: downloadError_def lookup_var_def alloc_def)

lemma downloadError_no_arg:
  "downloadError [] h = Inr (JObject (length h), h @ [[(''errorMessage'', JUndefined)]])"
  by (simp add: downloadError_def lookup_var_def alloc_def)

lemma heap_lookup_old: "a < length h \<Longrightarrow> heap_lookup (h @ ext) a = heap_lookup h a"
  by (simp add: heap_lookup_def nth_append)

lemma downloadError_total: "\<exists>v. downloadError args h = Inr (JObject (length h), h @ [[(''errorMessage'', v)]])"
  by (cases args) (simp_all add: downloadError_no_arg downloadError_one_arg)

lemma downloadError_calls_extends:
  "\<exists>rs ext. downloadError_calls calls h = Inr (rs, h @ ext)
      \<and> length rs = length calls \<and> length ext = length calls"
proof (induction calls arbitrary: h)
  case Nil
  show ?case by simp
next
  case (Cons args rest)
  obtain v where step: "downloadError args h = Inr (JObject (length h), h @ [[(''errorMessage'', v)]])"
    using downloadError_total by blast
  obtain rs ext where tail:
    "downloadError_calls rest (h @ [[(''errorMessage'', v)]]) = Inr (rs, (h @ [[(''errorMessage'', v)]]) @ ext)"
    "length rs = length rest" "length ext = length rest"
    using Cons.IH by blast
  have "downloadError_calls (args # rest) h
          = Inr (JObject (length h) # rs, h @ ([(''errorMessage'', v)] # ext))"
    using step tail(1) by simp
  moreover have "length (JObject (length h) # rs) = length (args # rest)"
    using tail(2) by simp
  moreover have "length ([(''errorMessage'', v)] # ext) = length (args # rest)"
    using tail(3) by simp
  ultimately show ?case by blast
qed

subsection \<open>The payload factory\<close>

text \<open>
  Claim C1. For every string \<open>s\<close>, \<open>downloadError(s)\<close> returns an object that has exactly
  one property, \<open>errorMessage\<close>, holding \<open>s\<close>: the call returns a reference, the object at
  it consists of that single property, and reading \<open>errorMessage\<close> there gives \<open>s\<close>. In
  particular \<open>downloadError("network timeout")\<close> returns
  \<open>{ errorMessage: "network timeout" }\<close>.
\<close>

theorem downloadError_string_payload:
  "(\<exists>a h'. downloadError [JString s] h = Inr (JObject a, h')
       \<and> heap_lookup h' a = Some [(''errorMessage'', JString s)]
       \<and> fst (get_property a ''errorMessage'' h') = Some (JString s))
   \<and> result_payload (downloadError [JString ''network timeout''] h)
       = Some [(''errorMessage'', JString ''network timeout'')]"
  by (simp add: downloadError_one_arg heap_lookup_new get_property_def result_payload_def)

text \<open>
  Claim C3. Every call to \<open>downloadError\<close> returns a newly created object. For all strings
  \<open>s1\<close> and \<open>s2\<close>, equal or not, a call with \<open>s1\<close> followed by a call with \<open>s2\<close> returns
  two different references; the first is the address of no object that existed before the
  call, the second of none that existed before the second call (so not of the first
  payload either), and afterwards each object still holds its own message.
\<close>

theorem downloadError_fresh_object:
  "\<exists>a1 h1 a2 h2.
      downloadError [JString s1] h = Inr (JObject a1, h1)
    \<and> downloadError [JString s2] h1 = Inr (JObject a2, h2)
    \<and> a1 \<noteq> a2
    \<and> heap_lookup h a1 = None
    \<and> heap_lookup h1 a2 = None
    \<and> heap_lookup h2 a1 = Some [(''errorMessage'', JString s1)]
    \<and> heap_lookup h2 a2 = Some [(''errorMessage'', JString s2)]"
  by (simp add: downloadError_one_arg heap_lookup_def nth_append)

text \<open>
  Claim C4. \<open>downloadError\<close> cannot fail: whatever the arguments and the heap, the call
  returns a value and raises no error. In particular \<open>downloadError("")\<close> returns
  \<open>{ errorMessage: "" }\<close>.
\<close>

theorem downloadError_cannot_fail:
  "(\<exists>r h'. downloadError args h = Inr (r, h'))
   \<and> result_payload (downloadError [JString ''''] h) = Some [(''errorMessage'', JString '''')]"
proof
  show "\<exists>r h'. downloadError args h = Inr (r, h')"
    using downloadError_total [of args h] by blast
  show "result_payload (downloadError [JString ''''] h) = Some [(''errorMessage'', JString '''')]"
    by (simp add: downloadError_one_arg result_payload_def heap_lookup_new)
qed

text \<open>
  Claim C7. \<open>downloadError\<close> is deterministic: two calls with equal strings, made on any
  two heaps (the same run or another one), return payloads with the same content, the
  single property \<open>errorMessage\<close> holding that string. The references returned may differ,
  the objects at them do not.
\<close>

theorem downloadError_deterministic:
  "s1 = s2 \<Longrightarrow>
     result_payload (downloadError [JString s1] h1) = result_payload (downloadError [JString s2] h2)
   \<and> result_payload (downloadError [JString s1] h1) = Some [(''errorMessage'', JString s1)]"
  by (simp add: downloadError_one_arg result_payload_def heap_lookup_new)

theorem downloadError_deterministic_witness:
  "''x'' = ''x''
   \<and> result_payload (downloadError [JString ''x''] [])
       = result_payload (downloadError [JString ''x''] [[(''k'', JNull)], []])
   \<and> result_payload (downloadError [JString ''x''] []) = Some [(''errorMessage'', JString ''x'')]"
proof -
  have same: "''x'' = ''x''" by simp
  show ?thesis
    using same downloadError_deterministic [OF same, of "[]" "[[(''k'', JNull)], []]"]
    by (simp add: downloadError_one_arg result_payload_def heap_lookup_def)
qed

text \<open>
  Claim C8. \<open>downloadError\<close> validates, converts and trims nothing: the value passed is
  stored as it is in the property \<open>errorMessage\<close>. That holds for the empty string, for a
  string with blanks around it, for \<open>undefined\<close> passed explicitly, and for a call with no
  argument at all, where the parameter is \<open>undefined\<close>.
\<close>

theorem downloadError_verbatim:
  "result_payload (downloadError [v] h) = Some [(''errorMessage'', v)]
   \<and> result_payload (downloadError [JString ''''] h) = Some [(''errorMessage'', JString '''')]
   \<and> result_payload (downloadError [JString ''  padded  ''] h)
       = Some [(''errorMessage'', JString ''  padded  '')]
   \<and> result_payload (downloadError [JUndefined] h) = Some [(''errorMessage'', JUndefined)]
   \<and> result_payload (downloadError [] h) = Some [(''errorMessage'', JUndefined)]"
  by (simp add: downloadError_one_arg downloadError_no_arg result_payload_def heap_lookup_new)

text \<open>
  Claim C10. \<open>downloadError\<close> is total over values of every type, not only strings: for
  each value \<open>v\<close> (a number, \<open>null\<close>, \<open>undefined\<close>, a reference to an object, ...) the
  call returns an object whose one property \<open>errorMessage\<close> holds \<open>v\<close> itself. For an
  object argument the property holds the same reference: exactly one object, the payload,
  is created, and every object that existed before is left as it was.
\<close>

theorem downloadError_any_value:
  "\<exists>a h'. downloadError [v] h = Inr (JObject a, h')
      \<and> heap_lookup h' a = Some [(''errorMessage'', v)]
      \<and> fst (get_property a ''errorMessage'' h') = Some v
      \<and> length h' = Suc (length h)
      \<and> take (length h) h' = h"
  by (simp add: downloadError_one_arg heap_lookup_new get_property_def)

subsection \<open>The event catalog\<close>

text \<open>
  Claim C2. The catalog entry \<open>mapEventTypes.MAP_DOWNLOAD_ERROR\<close> is the string
  \<open>"MAP_DOWNLOAD_ERROR"\<close>: once the module is loaded, on whatever heap, reading that
  property of the object bound to \<open>mapEventTypes\<close> yields this string.
\<close>

theorem mapEventTypes_MAP_DOWNLOAD_ERROR:
  "fst (get_property (mapEventTypes (fst (module_init h))) ''MAP_DOWNLOAD_ERROR''
          (snd (module_init h)))
     = Some (JString ''MAP_DOWNLOAD_ERROR'')"
  by (simp add: module_init_def alloc_def get_property_def heap_lookup_new)

text \<open>
  Claim C6. The catalog has exactly one entry. Its keys are distinct, so each key has one
  value; its values are distinct; each value is the string spelling its key; and the key
  \<open>MAP_DOWNLOAD_ERROR\<close> maps to \<open>"MAP_DOWNLOAD_ERROR"\<close>.
\<close>

theorem mapEventTypes_entries:
  "\<exists>ps. heap_lookup (snd (module_init h)) (mapEventTypes (fst (module_init h))) = Some ps
      \<and> ps = [(''MAP_DOWNLOAD_ERROR'', JString ''MAP_DOWNLOAD_ERROR'')]
      \<and> length ps = 1
      \<and> distinct (map fst ps)
      \<and> distinct (map snd ps)
      \<and> map snd ps = map JString (map fst ps)
      \<and> map_of ps ''MAP_DOWNLOAD_ERROR'' = Some (JString ''MAP_DOWNLOAD_ERROR'')"
  by (simp add: module_init_def alloc_def heap_lookup_new)

text \<open>
  Claim C5, as amended. The module never changes its catalog, and reading does not change
  it either. After the module is loaded and \<open>downloadError\<close> has been called any number
  of times, a read of \<open>MAP_DOWNLOAD_ERROR\<close> yields \<open>"MAP_DOWNLOAD_ERROR"\<close>; after any
  number of further calls a second read yields the same value, and the catalog object
  still consists of its one initial entry. A read of any property of any object returns
  the heap as it found it, so a second read directly after the first yields the same
  value. This is a statement about the module's own operations and about reads: the
  catalog is not protected against assignment by other code.
\<close>

theorem mapEventTypes_unchanged_by_module:
  "(\<exists>rs1 h1 rs2 h2.
        downloadError_calls calls1 (snd (module_init h0)) = Inr (rs1, h1)
      \<and> get_property (mapEventTypes (fst (module_init h0))) ''MAP_DOWNLOAD_ERROR'' h1
          = (Some (JString ''MAP_DOWNLOAD_ERROR''), h1)
      \<and> downloadError_calls calls2 h1 = Inr (rs2, h2)
      \<and> get_property (mapEventTypes (fst (module_init h0))) ''MAP_DOWNLOAD_ERROR'' h2
          = (Some (JString ''MAP_DOWNLOAD_ERROR''), h2)
      \<and> heap_lookup h2 (mapEventTypes (fst (module_init h0)))
          = Some [(''MAP_DOWNLOAD_ERROR'', JString ''MAP_DOWNLOAD_ERROR'')])
   \<and> snd (get_property a k h) = h
   \<and> fst (get_property a k (snd (get_property a k h))) = fst (get_property a k h)"
proof -
  let ?cat = "[(''MAP_DOWNLOAD_ERROR'', JString ''MAP_DOWNLOAD_ERROR'')]"
  have init: "module_init h0 = (\<lparr>mapEventTypes = length h0\<rparr>, h0 @ [?cat])"
    by (simp add: module_init_def alloc_def)
  obtain rs1 ext1 where run1:
    "downloadError_calls calls1 (h0 @ [?cat]) = Inr (rs1, (h0 @ [?cat]) @ ext1)"
    using downloadError_calls_extends by blast
  obtain rs2 ext2 where run2:
    "downloadError_calls calls2 ((h0 @ [?cat]) @ ext1) = Inr (rs2, ((h0 @ [?cat]) @ ext1) @ ext2)"
    using downloadError_calls_extends by blast
  have kept1: "heap_lookup ((h0 @ [?cat]) @ ext1) (length h0) = Some ?cat"
    by (simp add: heap_lookup_def nth_append)
  have kept2: "heap_lookup (((h0 @ [?cat]) @ ext1) @ ext2) (length h0) = Some ?cat"
    by (simp add: heap_lookup_def nth_append)
  have read1: "get_property (length h0) ''MAP_DOWNLOAD_ERROR'' ((h0 @ [?cat]) @ ext1)
                = (Some (JString ''MAP_DOWNLOAD_ERROR''), (h0 @ [?cat]) @ ext1)"
    using kept1 by (simp add: get_property_def)
  have read2: "get_property (length h0) ''MAP_DOWNLOAD_ERROR'' (((h0 @ [?cat]) @ ext1) @ ext2)
                = (Some (JString ''MAP_DOWNLOAD_ERROR''), ((h0 @ [?cat]) @ ext1) @ ext2)"
    using kept2 by (simp add: get_property_def)
  have pure: "snd (get_property a k h) = h"
    by (simp add: get_property_def split: option.splits)
  have "\<exists>rs1 h1 rs2 h2.
        downloadError_calls calls1 (h0 @ [?cat]) = Inr (rs1, h1)
      \<and> get_property (length h0) ''MAP_DOWNLOAD_ERROR'' h1
          = (Some (JString ''MAP_DOWNLOAD_ERROR''), h1)
      \<and> downloadError_calls calls2 h1 = Inr (rs2, h2)
      \<and> get_property (length h0) ''MAP_DOWNLOAD_ERROR'' h2
          = (Some (JString ''MAP_DOWNLOAD_ERROR''), h2)
      \<and> heap_lookup h2 (length h0) = Some ?cat"
    using run1 read1 run2 read2 kept2 by blast
  with init pure show ?thesis by simp
qed

text \<open>
  The catalog is not a read-only mapping. It is an ordinary object, and an assignment to
  its entry by importing code succeeds: on the module loaded into the empty heap, writing
  \<open>"CHANGED"\<close> to \<open>MAP_DOWNLOAD_ERROR\<close> replaces the entry, and the read after the write
  differs from the read before it.
\<close>

theorem mapEventTypes_write_counterexample:
  "set_property (mapEventTypes (fst (module_init []))) ''MAP_DOWNLOAD_ERROR'' (JString ''CHANGED'')
       (snd (module_init []))
     = Some [[(''MAP_DOWNLOAD_ERROR'', JString ''CHANGED'')]]
   \<and> fst (get_property (mapEventTypes (fst (module_init []))) ''MAP_DOWNLOAD_ERROR''
            (snd (module_init [])))
     = Some (JString ''MAP_DOWNLOAD_ERROR'')
   \<and> fst (get_property (mapEventTypes (fst (module_init []))) ''MAP_DOWNLOAD_ERROR''
            [[(''MAP_DOWNLOAD_ERROR'', JString ''CHANGED'')]])
     = Some (JString ''CHANGED'')
   \<and> fst (get_property (mapEventTypes (fst (module_init []))) ''MAP_DOWNLOAD_ERROR''
            [[(''MAP_DOWNLOAD_ERROR'', JString ''CHANGED'')]])
     \<noteq> fst (get_property (mapEventTypes (fst (module_init []))) ''MAP_DOWNLOAD_ERROR''
            (snd (module_init [])))"
  by (simp add: module_init_def alloc_def set_property_def get_property_def heap_lookup_def)

subsection \<open>The module has no state of its own\<close>

text \<open>
  Claim C9. Calling \<open>downloadError\<close> any number of times, with any arguments, changes
  nothing that existed before: every call returns, the heap afterwards starts with the
  heap before (all earlier objects at their addresses, with their properties), and so the
  object bound to \<open>mapEventTypes\<close>, if it held the properties \<open>cat\<close> before, holds them
  after, with the same \<open>MAP_DOWNLOAD_ERROR\<close> entry. The binding itself is a constant of
  the environment, which no call receives or returns.
\<close>

theorem downloadError_calls_frame:
  assumes "heap_lookup h (mapEventTypes env) = Some cat"
  shows "\<exists>rs h'. downloadError_calls calls h = Inr (rs, h')
      \<and> length rs = length calls
      \<and> take (length h) h' = h
      \<and> heap_lookup h' (mapEventTypes env) = Some cat
      \<and> fst (get_property (mapEventTypes env) ''MAP_DOWNLOAD_ERROR'' h')
          = fst (get_property (mapEventTypes env) ''MAP_DOWNLOAD_ERROR'' h)"
proof -
  obtain rs ext where run: "downloadError_calls calls h = Inr (rs, h @ ext)"
    and len: "length rs = length calls"
    using downloadError_calls_extends by blast
  have inside: "mapEventTypes env < length h"
    using assms by (simp add: heap_lookup_def split: if_splits)
  have same: "heap_lookup (h @ ext) (mapEventTypes env) = heap_lookup h (mapEventTypes env)"
    using inside by (rule heap_lookup_old)
  have "fst (get_property (mapEventTypes env) ''MAP_DOWNLOAD_ERROR'' (h @ ext))
          = fst (get_property (mapEventTypes env) ''MAP_DOWNLOAD_ERROR'' h)"
    using assms same by (simp add: get_property_def split: option.splits)
  with run len same assms show ?thesis by simp
qed

theorem downloadError_calls_frame_witness:
  "heap_lookup (snd (module_init [])) (mapEventTypes (fst (module_init [])))
      = Some [(''MAP_DOWNLOAD_ERROR'', JString ''MAP_DOWNLOAD_ERROR'')]
   \<and> (\<exists>rs h'. downloadError_calls [[JString ''x''], [], [JNull, JString ''y'']] (snd (module_init []))
                  = Inr (rs, h')
        \<and> length rs = 3
        \<and> take 1 h' = snd (module_init [])
        \<and> heap_lookup h' 0 = Some [(''MAP_DOWNLOAD_ERROR'', JString ''MAP_DOWNLOAD_ERROR'')]
        \<and> fst (get_property 0 ''MAP_DOWNLOAD_ERROR'' h') = Some (JString ''MAP_DOWNLOAD_ERROR''))"
proof -
  have held: "heap_lookup (snd (module_init [])) (mapEventTypes (fst (module_init [])))
      = Some [(''MAP_DOWNLOAD_ERROR'', JString ''MAP_DOWNLOAD_ERROR'')]"
    by (simp add: module_init_def alloc_def heap_lookup_def)
  show ?thesis
    using held downloadError_calls_frame [OF held, of "[[JString ''x''], [], [JNull, JString ''y'']]"]
    by (simp add: module_init_def alloc_def get_property_def heap_lookup_def
          downloadError_one_arg downloadError_no_arg)
qed

end
